theory Spec2Isabelle
  imports Complex_Main "HOL-Library.AList"
begin

section \<open>Python values used by the renderer\<close>

text \<open>
  A Python \<open>str\<close> is a sequence of Unicode code points; it is modelled as a list of
  natural numbers, so that the whitespace of \<open>str.strip()\<close> and \<open>str.split()\<close> is exactly
  Python's. ASCII literals of the source are written \<open>lit ''...''\<close>.
\<close>

type_synonym pystr = "nat list"

definition lit :: "string \<Rightarrow> pystr" where
  "lit s = map of_char s"

text \<open>The exceptions that the modelled code raises, catches or lets through.\<close>

datatype exn =
    ValueError pystr
  | IndexError
  | AttributeError
  | OSError
  | LibraryError pystr
  | HTTPException nat pystr exn

text \<open>
  \<open>str.isspace\<close> for one code point (CPython's \<open>_PyUnicode_IsWhitespace\<close>): the characters
  that \<open>strip()\<close> and \<open>split()\<close> without arguments treat as whitespace.
\<close>

definition isspace :: "nat \<Rightarrow> bool" where
  "isspace c =
     ((9 \<le> c \<and> c \<le> 13) \<or> (28 \<le> c \<and> c \<le> 32) \<or> c = 133 \<or> c = 160 \<or> c = 5760
      \<or> (8192 \<le> c \<and> c \<le> 8202) \<or> c = 8232 \<or> c = 8233 \<or> c = 8239 \<or> c = 8287
      \<or> c = 12288)"

definition strip :: "pystr \<Rightarrow> pystr" where
  "strip s = rev (dropWhile isspace (rev (dropWhile isspace s)))"

text \<open>\<open>s.split(sep)\<close> for a one-character separator: never the empty list.\<close>

fun split_on :: "nat \<Rightarrow> pystr \<Rightarrow> pystr \<Rightarrow> pystr list" where
  "split_on sep cur [] = [cur]"
| "split_on sep cur (c # cs) =
     (if c = sep then cur # split_on sep [] cs else split_on sep (cur @ [c]) cs)"

text \<open>\<open>s.split()\<close>: runs of whitespace separate the tokens, no token is empty.\<close>

fun split_ws :: "pystr \<Rightarrow> pystr \<Rightarrow> pystr list" where
  "split_ws cur [] = (if cur = [] then [] else [cur])"
| "split_ws cur (c # cs) =
     (if isspace c then (if cur = [] then split_ws [] cs else cur # split_ws [] cs)
      else split_ws (cur @ [c]) cs)"

definition py_split :: "pystr \<Rightarrow> pystr list" where
  "py_split s = split_ws [] s"

text \<open>\<open>sep.join(xs)\<close>.\<close>

fun join :: "pystr \<Rightarrow> pystr list \<Rightarrow> pystr" where
  "join sep [] = []"
| "join sep [x] = x"
| "join sep (x # y # ys) = x @ sep @ join sep (y # ys)"

text \<open>\<open>xs[0]\<close> raises \<open>IndexError\<close> on the empty list.\<close>

definition index0 :: "'a list \<Rightarrow> exn + 'a" where
  "index0 xs = (case xs of [] \<Rightarrow> Inl IndexError | x # _ \<Rightarrow> Inr x)"

text \<open>\<open>str(n)\<close> for an integer, as the f-string \<open>f"Category {cluster_id}"\<close> formats it.\<close>

fun str_nat :: "nat \<Rightarrow> pystr" where
  "str_nat n = (if n < 10 then [48 + n] else str_nat (n div 10) @ [48 + n mod 10])"

declare str_nat.simps [simp del]

definition str_int :: "int \<Rightarrow> pystr" where
  "str_int i = (if i < 0 then 45 # str_nat (nat (- i)) else str_nat (nat i))"

definition generic_name :: "int \<Rightarrow> pystr" where
  "generic_name cluster_id = lit ''Category '' @ str_int cluster_id"


section \<open>The collaborators of the renderer\<close>

text \<open>
  The sentence-transformer model, scikit-learn's \<open>KMeans\<close>, \<open>umap.UMAP\<close>, the Groq client,
  \<open>os.getenv\<close> and the module \<open>random\<close> are libraries outside the repository. Every call
  into them is a function of an explicit world \<open>'w\<close> (process environment, random number
  generators, network), returns the world it leaves behind, and may raise. Embeddings
  (\<open>'e\<close>, one per note) and floating point coordinates (\<open>'f\<close>) are opaque; \<open>'m\<close> and \<open>'g\<close> are
  the handles of the loaded model and of the Groq client.
\<close>

record kmeans_params =
  km_n_clusters :: int
  km_random_state :: nat
  km_n_init :: nat

record umap_params =
  um_n_components :: nat
  um_n_neighbors :: int
  um_min_dist :: real
  um_random_state :: nat

record chat_request =
  req_messages :: "(pystr \<times> pystr) list"
  req_model :: pystr
  req_temperature :: real
  req_max_tokens :: nat

text \<open>
  \<open>chat_create\<close> stands for \<open>client.chat.completions.create(...)\<close>; its result lists, for
  each element of \<open>choices\<close>, the value of \<open>message.content\<close> (\<open>None\<close> in Python is \<open>None\<close>
  here).
\<close>

record ('m, 'g, 'e, 'f, 'w) env =
  SentenceTransformer :: "pystr \<Rightarrow> 'w \<Rightarrow> (exn + 'm) \<times> 'w"
  getenv :: "pystr \<Rightarrow> 'w \<Rightarrow> pystr option"
  Groq :: "pystr \<Rightarrow> 'w \<Rightarrow> (exn + 'g) \<times> 'w"
  encode :: "'m \<Rightarrow> pystr list \<Rightarrow> 'w \<Rightarrow> (exn + 'e list) \<times> 'w"
  fit_predict :: "kmeans_params \<Rightarrow> 'e list \<Rightarrow> 'w \<Rightarrow> (exn + int list) \<times> 'w"
  fit_transform :: "umap_params \<Rightarrow> 'e list \<Rightarrow> 'w \<Rightarrow> (exn + 'f list list) \<times> 'w"
  random_sample :: "pystr list \<Rightarrow> nat \<Rightarrow> 'w \<Rightarrow> pystr list \<times> 'w"
  chat_create :: "'g \<Rightarrow> chat_request \<Rightarrow> 'w \<Rightarrow> (exn + pystr option list) \<times> 'w"

section \<open>\<open>services/galaxy_brain.py\<close>: the class \<open>GalaxyRenderer\<close>\<close>

text \<open>
  The estimator objects that \<open>process_notes\<close> stores in \<open>self.kmeans\<close> and
  \<open>self.umap_reducer\<close>: their constructor arguments and, once fitted, the attributes
  \<open>labels_\<close> and \<open>embedding_\<close>.
\<close>

record kmeans_handle =
  km_params :: kmeans_params
  km_labels :: "int list option"

record 'f umap_handle =
  um_params :: umap_params
  um_embedding :: "'f list list option"

record ('m, 'g, 'f) renderer =
  model :: 'm
  n_clusters :: int
  kmeans :: "kmeans_handle option"
  umap_reducer :: "'f umap_handle option"
  groq_client :: "'g option"

record 'f node =
  node_id :: nat
  label :: pystr
  node_x :: 'f
  node_y :: 'f
  node_z :: 'f
  category :: int
  cluster_label :: pystr

text \<open>A Python \<open>dict\<close> keeps insertion order: an association list with distinct keys.\<close>

record 'f galaxy =
  nodes :: "'f node list"
  cluster_names :: "(int \<times> pystr) list"


definition default_n_clusters :: int where
  "default_n_clusters = 5"


subsection \<open>\<open>_name_clusters\<close>\<close>

text \<open>
  \<open>[notes[i] for i in range(len(notes)) if cluster_labels[i] == cluster_id]\<close>: reading
  \<open>cluster_labels[i]\<close> raises \<open>IndexError\<close> when there are fewer labels than notes.
\<close>

definition cluster_notes_of :: "int list \<Rightarrow> pystr list \<Rightarrow> int \<Rightarrow> exn + pystr list" where
  "cluster_notes_of cluster_labels notes cluster_id =
     (if length cluster_labels < length notes then Inl IndexError
      else Inr (map (\<lambda>i. notes ! i)
                  (filter (\<lambda>i. cluster_labels ! i = cluster_id) [0..<length notes])))"

definition build_prompt :: "pystr list \<Rightarrow> pystr" where
  "build_prompt sample_notes =
     (let notes_list = join [10] (map (\<lambda>note. lit ''- '' @ note) sample_notes)
      in lit ''Generate a 2-word topic title for these notes:'' @ [10] @ notes_list
         @ [10, 10] @ lit ''Return ONLY the 2-word title.'')"

definition build_request :: "pystr \<Rightarrow> chat_request" where
  "build_request prompt =
     \<lparr>req_messages = [(lit ''user'', prompt)], req_model = lit ''llama-3.1-8b-instant'',
      req_temperature = 0.7, req_max_tokens = 20\<rparr>"

text \<open>
  Sampling, prompt and external call for one cluster (lines 72 to 91). \<open>random.sample\<close> is
  called only with more members than the sample size, where it cannot raise.
\<close>

definition ask ::
  "('m, 'g, 'e, 'f, 'w) env \<Rightarrow> 'g \<Rightarrow> pystr list \<Rightarrow> 'w \<Rightarrow> (exn + pystr option list) \<times> 'w" where
  "ask env g cluster_notes w =
     (let sample_size = min 3 (length cluster_notes)
      in case (if length cluster_notes > sample_size
               then random_sample env cluster_notes sample_size w
               else (cluster_notes, w)) of
           (sample_notes, w1) \<Rightarrow> chat_create env g (build_request (build_prompt sample_notes)) w1)"

text \<open>
  Lines 94 to 97: \<open>content.strip().split('\n')[0].strip()\<close>, then the first two words, or
  the first word; \<open>category_name.split()[0]\<close> raises \<open>IndexError\<close> when there is no word.
\<close>

definition parse_name :: "pystr \<Rightarrow> exn + pystr" where
  "parse_name content =
     (case index0 (split_on 10 [] (strip content)) of
        Inl e \<Rightarrow> Inl e
      | Inr first_line \<Rightarrow>
          (let category_name = strip first_line;
               words = take 2 (py_split category_name)
           in if length words = 2 then Inr (join [32] words)
              else index0 (py_split category_name)))"

text \<open>
  The \<open>try\<close> block from the returned completion on: \<open>choices[0].message.content\<close>, where an
  empty \<open>choices\<close> raises \<open>IndexError\<close> and a \<open>None\<close> content raises \<open>AttributeError\<close> at
  \<open>.strip()\<close>.
\<close>

definition try_name :: "exn + pystr option list \<Rightarrow> exn + pystr" where
  "try_name outcome =
     (case outcome of
        Inl e \<Rightarrow> Inl e
      | Inr choices \<Rightarrow>
          (case index0 choices of
             Inl e \<Rightarrow> Inl e
           | Inr None \<Rightarrow> Inl AttributeError
           | Inr (Some content) \<Rightarrow> parse_name content))"

text \<open>\<open>try ... except Exception\<close>: any exception gives the generic name.\<close>

definition name_of_outcome :: "int \<Rightarrow> exn + pystr option list \<Rightarrow> pystr" where
  "name_of_outcome cluster_id outcome =
     (case try_name outcome of Inl e \<Rightarrow> generic_name cluster_id | Inr name \<Rightarrow> name)"

text \<open>The body of the loop over \<open>unique_clusters\<close>; line 69 is outside the \<open>try\<close>.\<close>

definition name_one ::
  "('m, 'g, 'e, 'f, 'w) env \<Rightarrow> 'g \<Rightarrow> int list \<Rightarrow> pystr list \<Rightarrow> int \<Rightarrow> 'w \<Rightarrow> (exn + pystr) \<times> 'w" where
  "name_one env g cluster_labels notes cluster_id w =
     (case cluster_notes_of cluster_labels notes cluster_id of
        Inl e \<Rightarrow> (Inl e, w)
      | Inr cluster_notes \<Rightarrow>
          (case ask env g cluster_notes w of
             (outcome, w1) \<Rightarrow> (Inr (name_of_outcome cluster_id outcome), w1)))"

fun name_loop ::
  "('m, 'g, 'e, 'f, 'w) env \<Rightarrow> 'g \<Rightarrow> int list \<Rightarrow> pystr list \<Rightarrow> int list \<Rightarrow> (int \<times> pystr) list
     \<Rightarrow> 'w \<Rightarrow> (exn + (int \<times> pystr) list) \<times> 'w" where
  "name_loop env g cluster_labels notes [] names w = (Inr names, w)"
| "name_loop env g cluster_labels notes (cluster_id # rest) names w =
     (case name_one env g cluster_labels notes cluster_id w of
        (Inl e, w1) \<Rightarrow> (Inl e, w1)
      | (Inr name, w1) \<Rightarrow>
          name_loop env g cluster_labels notes rest (AList.update cluster_id name names) w1)"

text \<open>\<open>sorted(set(cluster_labels))\<close>.\<close>

definition unique_clusters :: "int list \<Rightarrow> int list" where
  "unique_clusters cluster_labels = sort (remdups cluster_labels)"

definition name_clusters ::
  "('m, 'g, 'e, 'f, 'w) env \<Rightarrow> ('m, 'g, 'f) renderer \<Rightarrow> int list \<Rightarrow> pystr list \<Rightarrow> 'w
     \<Rightarrow> (exn + (int \<times> pystr) list) \<times> 'w" where
  "name_clusters env self cluster_labels notes w =
     (case groq_client self of
        None \<Rightarrow>
          (Inr (map (\<lambda>cluster_id. (cluster_id, generic_name cluster_id))
                  (unique_clusters cluster_labels)), w)
      | Some g \<Rightarrow> name_loop env g cluster_labels notes (unique_clusters cluster_labels) [] w)"

subsection \<open>\<open>process_notes\<close>\<close>

text \<open>\<open>coords_3d[i][j]\<close> on the array returned by \<open>fit_transform\<close>.\<close>

definition coord :: "'f list list \<Rightarrow> nat \<Rightarrow> nat \<Rightarrow> exn + 'f" where
  "coord coords_3d i j =
     (if i < length coords_3d \<and> j < length (coords_3d ! i) then Inr (coords_3d ! i ! j)
      else Inl IndexError)"

text \<open>
  The loop \<open>for i, note in enumerate(notes)\<close> with \<open>nodes.append\<close>; \<open>names\<close> is the
  dictionary returned by \<open>_name_clusters\<close>.
\<close>

fun build_nodes ::
  "nat \<Rightarrow> pystr list \<Rightarrow> int list \<Rightarrow> 'f list list \<Rightarrow> (int \<times> pystr) list \<Rightarrow> 'f node list
     \<Rightarrow> exn + 'f node list" where
  "build_nodes i [] cluster_labels coords_3d names acc = Inr acc"
| "build_nodes i (note # rest) cluster_labels coords_3d names acc =
     (if i < length cluster_labels then
        (let cluster_id = cluster_labels ! i
         in case coord coords_3d i 0 of Inl e \<Rightarrow> Inl e | Inr x \<Rightarrow>
            (case coord coords_3d i 1 of Inl e \<Rightarrow> Inl e | Inr y \<Rightarrow>
            (case coord coords_3d i 2 of Inl e \<Rightarrow> Inl e | Inr z \<Rightarrow>
               build_nodes (Suc i) rest cluster_labels coords_3d names
                 (acc @ [\<lparr>node_id = i, label = note, node_x = x, node_y = y, node_z = z,
                          category = cluster_id,
                          cluster_label =
                            (case map_of names cluster_id of
                               None \<Rightarrow> generic_name cluster_id
                             | Some name \<Rightarrow> name)\<rparr>]))))
      else Inl IndexError)"

definition n_neighbors_val :: "pystr list \<Rightarrow> int" where
  "n_neighbors_val notes =
     (if length notes > 1 then min 10 (int (length notes) - 1) else 1)"

text \<open>
  The constructor calls \<open>KMeans(n_clusters=self.n_clusters, random_state=42, n_init=10)\<close>
  and \<open>umap.UMAP(n_components=3, n_neighbors=n_neighbors_val, min_dist=0.3,
  random_state=42)\<close>.
\<close>

definition kmeans_args :: "('m, 'g, 'f) renderer \<Rightarrow> kmeans_params" where
  "kmeans_args self =
     \<lparr>km_n_clusters = n_clusters self, km_random_state = 42, km_n_init = 10\<rparr>"

definition umap_args :: "pystr list \<Rightarrow> umap_params" where
  "umap_args notes =
     \<lparr>um_n_components = 3, um_n_neighbors = n_neighbors_val notes, um_min_dist = 0.3,
      um_random_state = 42\<rparr>"

text \<open>
  \<open>process_notes\<close> returns the result or the exception, the instance as the call leaves
  it, and the world. The assignments to \<open>self.kmeans\<close> and \<open>self.umap_reducer\<close> happen
  before the fit, so they persist when the fit raises; a successful fit sets the
  estimator's fitted attribute. The last step, \<open>{int(k): str(v) for k, v in ...}\<close>, copies
  the dictionary.
\<close>

definition process_notes ::
  "('m, 'g, 'e, 'f, 'w) env \<Rightarrow> ('m, 'g, 'f) renderer \<Rightarrow> pystr list \<Rightarrow> 'w
     \<Rightarrow> (exn + 'f galaxy) \<times> ('m, 'g, 'f) renderer \<times> 'w" where
  "process_notes env self notes w =
     (if notes = [] then (Inr \<lparr>nodes = [], cluster_names = []\<rparr>, self, w)
      else
        case encode env (model self) notes w of
          (Inl e, w1) \<Rightarrow> (Inl e, self, w1)
        | (Inr embeddings, w1) \<Rightarrow>
            (let kp = kmeans_args self;
                 self1 = self\<lparr>kmeans := Some \<lparr>km_params = kp, km_labels = None\<rparr>\<rparr>
             in case fit_predict env kp embeddings w1 of
                  (Inl e, w2) \<Rightarrow> (Inl e, self1, w2)
                | (Inr cluster_labels, w2) \<Rightarrow>
                    (let self2 = self1\<lparr>kmeans :=
                                   Some \<lparr>km_params = kp, km_labels = Some cluster_labels\<rparr>\<rparr>;
                         up = umap_args notes;
                         self3 = self2\<lparr>umap_reducer :=
                                   Some \<lparr>um_params = up, um_embedding = None\<rparr>\<rparr>
                     in case fit_transform env up embeddings w2 of
                          (Inl e, w3) \<Rightarrow> (Inl e, self3, w3)
                        | (Inr coords_3d, w3) \<Rightarrow>
                            (let self4 = self3\<lparr>umap_reducer :=
                                           Some \<lparr>um_params = up,
                                                 um_embedding = Some coords_3d\<rparr>\<rparr>
                             in case name_clusters env self4 cluster_labels notes w3 of
                                  (Inl e, w4) \<Rightarrow> (Inl e, self4, w4)
                                | (Inr names, w4) \<Rightarrow>
                                    (case build_nodes 0 notes cluster_labels coords_3d names [] of
                                       Inl e \<Rightarrow> (Inl e, self4, w4)
                                     | Inr ns \<Rightarrow>
                                         (Inr \<lparr>nodes = ns,
                                               cluster_names = map (\<lambda>(k, v). (k, v)) names\<rparr>,
                                          self4, w4))))))"

section \<open>\<open>api/routes.py\<close>: storage and the endpoint \<open>add_notes\<close>\<close>

text \<open>
  The file \<open>data/notes.json\<close>: absent, unreadable (\<open>open\<close>, \<open>json.load\<close> or \<open>data.get\<close>
  raises the given exception), or a JSON object with or without the key \<open>"notes"\<close>,
  whose value is a list of strings or some value that is not a list (\<open>null\<close>, a number, a
  string, an object).
\<close>

datatype notes_value = Note_list "pystr list" | Not_a_list

datatype file_content = Missing | Unreadable exn | Notes_json "notes_value option"

text \<open>
  What the file system does at a write: \<open>data_dir_ok\<close> tells whether
  \<open>DATA_DIR.mkdir(exist_ok=True)\<close> succeeds, \<open>writable\<close> whether \<open>open(NOTES_FILE, "w")\<close>
  succeeds, and \<open>json_dump\<close> gives the exception that \<open>json.dump\<close> raises for the given
  notes, if any.
\<close>

record storage =
  data_dir_ok :: bool
  writable :: bool
  json_dump :: "pystr list \<Rightarrow> exn option"
  notes_file :: file_content

text \<open>\<open>load_notes\<close> returns the value of \<open>data.get("notes", [])\<close> as it is.\<close>

definition load_notes :: "storage \<Rightarrow> exn + notes_value" where
  "load_notes fs =
     (case notes_file fs of
        Missing \<Rightarrow> Inr (Note_list [])
      | Unreadable e \<Rightarrow> Inl (HTTPException 500 (lit ''Error loading notes: '') e)
      | Notes_json None \<Rightarrow> Inr (Note_list [])
      | Notes_json (Some stored) \<Rightarrow> Inr stored)"

text \<open>
  \<open>save_notes\<close>: \<open>mkdir\<close> is outside the \<open>try\<close>. Opening the file for writing empties it,
  so when \<open>json.dump\<close> raises, the file is left empty or with a part of the text, which
  \<open>json.load\<close> rejects.
\<close>

definition save_notes :: "storage \<Rightarrow> pystr list \<Rightarrow> (exn + unit) \<times> storage" where
  "save_notes fs notes =
     (if data_dir_ok fs then
        (if writable fs then
           (case json_dump fs notes of
              None \<Rightarrow> (Inr (), fs\<lparr>notes_file := Notes_json (Some (Note_list notes))\<rparr>)
            | Some e \<Rightarrow>
                (Inl (HTTPException 500 (lit ''Error saving notes: '') e),
                 fs\<lparr>notes_file := Unreadable (LibraryError (lit ''JSONDecodeError''))\<rparr>))
         else (Inl (HTTPException 500 (lit ''Error saving notes: '') OSError), fs))
      else (Inl OSError, fs))"

text \<open>
  The module state: the storage, the module-level \<open>galaxy_renderer\<close> and the world of the
  collaborators. The handler has no \<open>await\<close>, so a request runs without interleaving.
\<close>

record ('m, 'g, 'f, 'w) app =
  store :: storage
  galaxy_renderer :: "('m, 'g, 'f) renderer"
  world :: 'w

record 'f add_notes_response =
  message :: pystr
  total_notes :: nat
  resp_nodes :: "'f node list"
  resp_cluster_names :: "(int \<times> pystr) list"

text \<open>
  \<open>add_notes\<close>: the detail of the \<open>HTTPException\<close> is the prefix followed by \<open>str(e)\<close>; the
  model keeps the prefix and the cause \<open>e\<close>. When the loaded value is not a list,
  \<open>existing_notes.extend\<close> raises \<open>AttributeError\<close>, before anything is saved.
\<close>

definition add_notes ::
  "('m, 'g, 'e, 'f, 'w) env \<Rightarrow> ('m, 'g, 'f, 'w) app \<Rightarrow> pystr list
     \<Rightarrow> (exn + 'f add_notes_response) \<times> ('m, 'g, 'f, 'w) app" where
  "add_notes env a request_notes =
     (case load_notes (store a) of
        Inl e \<Rightarrow> (Inl (HTTPException 500 (lit ''Error adding notes: '') e), a)
      | Inr Not_a_list \<Rightarrow>
          (Inl (HTTPException 500 (lit ''Error adding notes: '') AttributeError), a)
      | Inr (Note_list loaded) \<Rightarrow>
          (let existing_notes = loaded @ request_notes
           in case save_notes (store a) existing_notes of
                (Inl e, fs1) \<Rightarrow>
                  (Inl (HTTPException 500 (lit ''Error adding notes: '') e), a\<lparr>store := fs1\<rparr>)
              | (Inr u, fs1) \<Rightarrow>
                  (case process_notes env (galaxy_renderer a) existing_notes (world a) of
                     (Inl e, r1, w1) \<Rightarrow>
                       (Inl (HTTPException 500 (lit ''Error adding notes: '') e),
                        \<lparr>store = fs1, galaxy_renderer = r1, world = w1\<rparr>)
                   | (Inr result, r1, w1) \<Rightarrow>
                       (Inr \<lparr>message = lit ''Added '' @ str_nat (length request_notes)
                                         @ lit '' note(s)'',
                             total_notes = length existing_notes,
                             resp_nodes = nodes result,
                             resp_cluster_names = cluster_names result\<rparr>,
                        \<lparr>store = fs1, galaxy_renderer = r1, world = w1\<rparr>))))"

section \<open>A test environment\<close>

text \<open>
  Test doubles for the collaborators, used to run the model on concrete inputs. The
  embedding of a note is its length, the projector puts it on a line. The clusterer has
  scikit-learn's check of the sample count (\<open>KMeans\<close> raises \<open>ValueError\<close>
  \<open>"n_samples=2 should be >= n_clusters=5."\<close> when there are fewer samples than clusters) and
  otherwise assigns embeddings round-robin. The world counts the chat requests made so
  far; the third request fails.
\<close>

definition n_samples_message :: "nat \<Rightarrow> int \<Rightarrow> pystr" where
  "n_samples_message n k =
     lit ''n_samples='' @ str_nat n @ lit '' should be >= n_clusters='' @ str_int k @ lit ''.''"

definition test_env :: "(unit, unit, nat, int, nat) env" where
  "test_env =
     \<lparr>SentenceTransformer = (\<lambda>name w. (Inr (), w)),
      getenv = (\<lambda>name w. None),
      Groq = (\<lambda>key w. (Inr (), w)),
      encode = (\<lambda>m ns w. (Inr (map length ns), w)),
      fit_predict = (\<lambda>p X w.
        if int (length X) < km_n_clusters p
        then (Inl (ValueError (n_samples_message (length X) (km_n_clusters p))), w)
        else (Inr (map (\<lambda>e. int e mod km_n_clusters p) X), w)),
      fit_transform = (\<lambda>p X w. (Inr (map (\<lambda>e. [int e, 0, 1]) X), w)),
      random_sample = (\<lambda>xs k w. (take k xs, w)),
      chat_create = (\<lambda>g req w.
        (if w = 2 then Inl (LibraryError (lit ''rate limit''))
         else Inr [Some (lit ''Deep Space Topics'')], Suc w))\<rparr>"

definition test_renderer :: "int \<Rightarrow> unit option \<Rightarrow> (unit, unit, int) renderer" where
  "test_renderer k client =
     \<lparr>model = (), n_clusters = k, kmeans = None, umap_reducer = None, groq_client = client\<rparr>"

text \<open>
  The result of the test environment for the notes \<open>ab\<close> and \<open>c\<close> with two clusters and no
  Groq client.
\<close>

definition test_galaxy :: "int galaxy" where
  "test_galaxy =
     \<lparr>nodes =
        [\<lparr>node_id = 0, label = lit ''ab'', node_x = 2, node_y = 0, node_z = 1, category = 0,
          cluster_label = lit ''Category 0''\<rparr>,
         \<lparr>node_id = 1, label = lit ''c'', node_x = 1, node_y = 0, node_z = 1, category = 1,
          cluster_label = lit ''Category 1''\<rparr>],
      cluster_names = [(0, lit ''Category 0''), (1, lit ''Category 1'')]\<rparr>"

text \<open>
  The result of the test environment for the notes \<open>""\<close>, \<open>c\<close> and \<open>ab\<close> with three clusters
  and a Groq client, started in the world \<open>0\<close>: the request for cluster 2 is the third.
\<close>

definition test_galaxy3 :: "int galaxy" where
  "test_galaxy3 =
     \<lparr>nodes =
        [\<lparr>node_id = 0, label = lit [], node_x = 0, node_y = 0, node_z = 1, category = 0,
          cluster_label = lit ''Deep Space''\<rparr>,
         \<lparr>node_id = 1, label = lit ''c'', node_x = 1, node_y = 0, node_z = 1, category = 1,
          cluster_label = lit ''Deep Space''\<rparr>,
         \<lparr>node_id = 2, label = lit ''ab'', node_x = 2, node_y = 0, node_z = 1, category = 2,
          cluster_label = lit ''Category 2''\<rparr>],
      cluster_names =
        [(0, lit ''Deep Space''), (1, lit ''Deep Space''), (2, lit ''Category 2'')]\<rparr>"


section \<open>Notions used to state the properties\<close>


text \<open>
  The outcomes of the external requests that the naming loop issues for the clusters
  \<open>cs\<close>, in order, each with its cluster id: what \<open>chat_create\<close> returned or raised in the
  world in which that request was made.
\<close>

fun outcomes ::
  "('m, 'g, 'e, 'f, 'w) env \<Rightarrow> 'g \<Rightarrow> int list \<Rightarrow> pystr list \<Rightarrow> int list \<Rightarrow> 'w
     \<Rightarrow> (int \<times> (exn + pystr option list)) list" where
  "outcomes env g cluster_labels notes [] w = []"
| "outcomes env g cluster_labels notes (c # cs) w =
     (case cluster_notes_of cluster_labels notes c of
        Inl e \<Rightarrow> []
      | Inr cluster_notes \<Rightarrow>
          (case ask env g cluster_notes w of
             (outcome, w1) \<Rightarrow> (c, outcome) # outcomes env g cluster_labels notes cs w1))"

text \<open>
  What a node says about the placement of its note: everything but the cluster name.
  \<open>placements\<close> is that view of a result of \<open>process_notes\<close>.
\<close>

definition placement :: "'f node \<Rightarrow> nat \<times> pystr \<times> 'f \<times> 'f \<times> 'f \<times> int" where
  "placement n = (node_id n, label n, node_x n, node_y n, node_z n, category n)"

definition placements ::
  "exn + 'f galaxy \<Rightarrow> exn + (nat \<times> pystr \<times> 'f \<times> 'f \<times> 'f \<times> int) list" where
  "placements r = (case r of Inl e \<Rightarrow> Inl e | Inr res \<Rightarrow> Inr (map placement (nodes res)))"

text \<open>
  The libraries are reproducible: what the embedder, the clusterer and the projector
  return is determined by their arguments, the \<open>random_state\<close> among them, and not by the
  world in which they run.
\<close>

definition reproducible :: "('m, 'g, 'e, 'f, 'w) env \<Rightarrow> bool" where
  "reproducible env =
     ((\<forall>m ns w w'. fst (encode env m ns w) = fst (encode env m ns w'))
      \<and> (\<forall>p X w w'. fst (fit_predict env p X w) = fst (fit_predict env p X w'))
      \<and> (\<forall>p X w w'. fst (fit_transform env p X w) = fst (fit_transform env p X w')))"

text \<open>
  The parser of the response as the specification words it: the first line of the
  response, split on whitespace, the first two tokens joined with one space, or what
  there is when there are fewer.
\<close>

definition spec_parse_name :: "pystr \<Rightarrow> pystr" where
  "spec_parse_name response = join [32] (take 2 (py_split (takeWhile (\<lambda>c. c \<noteq> 10) response)))"

section \<open>Python's string operations\<close>

lemma split_on_acc:
  "split_on sep cur s = (cur @ hd (split_on sep [] s)) # tl (split_on sep [] s)"
proof (induction s arbitrary: cur)
  case Nil
  show ?case by simp
next
  case (Cons a s)
  show ?case
  proof (cases "a = sep")
    case True
    then show ?thesis by simp
  next
    case False
    have "split_on sep cur (a # s) = split_on sep (cur @ [a]) s" using False by simp
    also have "\<dots> = ((cur @ [a]) @ hd (split_on sep [] s)) # tl (split_on sep [] s)"
      by (rule Cons.IH)
    also have "split_on sep [] (a # s) = split_on sep [a] s" using False by simp
    ultimately show ?thesis
      using Cons.IH [of "[a]"] by simp
  qed
qed

lemma hd_split_on: "hd (split_on sep [] s) = takeWhile (\<lambda>c. c \<noteq> sep) s"
proof (induction s)
  case Nil
  show ?case by simp
next
  case (Cons a s)
  show ?case
  proof (cases "a = sep")
    case True
    then show ?thesis by simp
  next
    case False
    have "split_on sep [] (a # s) = split_on sep [a] s" using False by simp
    also have "\<dots> = ([a] @ hd (split_on sep [] s)) # tl (split_on sep [] s)"
      by (rule split_on_acc)
    finally show ?thesis using False Cons.IH by simp
  qed
qed

lemma split_on_nonempty: "split_on sep cur s \<noteq> []"
  by (subst split_on_acc) simp

lemma index0_split_on: "index0 (split_on sep [] s) = Inr (takeWhile (\<lambda>c. c \<noteq> sep) s)"
proof -
  obtain l ls where eq: "split_on sep [] s = l # ls"
    using split_on_nonempty [of sep "[]" s] by (cases "split_on sep [] s") auto
  with hd_split_on [of sep s] show ?thesis by (simp add: index0_def)
qed

lemma split_ws_spaces: "list_all isspace ws \<Longrightarrow> split_ws cur ws = (if cur = [] then [] else [cur])"
  by (induction ws arbitrary: cur) auto

lemma split_ws_append_spaces:
  "list_all isspace ws \<Longrightarrow> split_ws cur (s @ ws) = split_ws cur s"
  by (induction s arbitrary: cur) (auto simp: split_ws_spaces)

lemma split_ws_dropWhile: "split_ws [] (dropWhile isspace s) = split_ws [] s"
  by (induction s) auto

lemma split_ws_cur_nonempty: "cur \<noteq> [] \<Longrightarrow> split_ws cur s \<noteq> []"
  by (induction s arbitrary: cur) auto

lemma rev_dropWhile_rev: "rev (dropWhile P (rev s)) @ rev (takeWhile P (rev s)) = s"
proof -
  have "rev (takeWhile P (rev s) @ dropWhile P (rev s)) = s" by simp
  then show ?thesis by (simp only: rev_append)
qed

lemma py_split_strip: "py_split (strip s) = py_split s"
proof -
  let ?t = "dropWhile isspace s"
  have "list_all isspace (rev (takeWhile isspace (rev ?t)))"
    by (simp add: list_all_iff) (metis set_takeWhileD)
  from split_ws_append_spaces [OF this, of "[]" "rev (dropWhile isspace (rev ?t))"]
  have "split_ws [] (rev (dropWhile isspace (rev ?t))) = split_ws [] ?t"
    by (simp only: rev_dropWhile_rev)
  then show ?thesis by (simp add: py_split_def strip_def split_ws_dropWhile)
qed

lemma dropWhile_all_isspace:
  assumes "\<forall>x\<in>set (dropWhile isspace s). isspace x"
  shows "dropWhile isspace s = []"
proof (rule ccontr)
  assume ne: "dropWhile isspace s \<noteq> []"
  then have "\<not> isspace (hd (dropWhile isspace s))" by (rule hd_dropWhile)
  moreover from ne have "hd (dropWhile isspace s) \<in> set (dropWhile isspace s)" by simp
  ultimately show False using assms by blast
qed

lemma strip_Nil_iff: "strip s = [] \<longleftrightarrow> list_all isspace s"
proof
  assume "strip s = []"
  then have "\<forall>x\<in>set (dropWhile isspace s). isspace x"
    by (simp add: strip_def)
  then have "dropWhile isspace s = []" by (rule dropWhile_all_isspace)
  then show "list_all isspace s" by (simp add: list_all_iff)
next
  assume "list_all isspace s"
  then have "dropWhile isspace s = []" by (simp add: list_all_iff)
  then show "strip s = []" by (auto simp: strip_def dest: set_dropWhileD)
qed

lemma strip_starts:
  assumes "strip s \<noteq> []"
  obtains c cs where "strip s = c # cs" and "\<not> isspace c"
proof -
  let ?t = "dropWhile isspace s"
  have t: "?t \<noteq> []"
  proof
    assume "?t = []"
    then have "strip s = []" by (auto simp: strip_def dest: set_dropWhileD)
    with assms show False by simp
  qed
  then have nsp: "\<not> isspace (hd ?t)" by (rule hd_dropWhile)
  have "strip s @ rev (takeWhile isspace (rev ?t)) = ?t"
    unfolding strip_def by (rule rev_dropWhile_rev)
  with assms have "hd (strip s) = hd ?t" by (metis hd_append2)
  with nsp assms that show ?thesis by (cases "strip s") auto
qed

lemma index0_Nil: "index0 [] = Inl IndexError"
  by (simp add: index0_def)

lemma index0_Cons: "index0 (x # xs) = Inr x"
  by (simp add: index0_def)

lemma isspace_newline: "isspace 10"
  by (simp add: isspace_def)

lemma tokens_of_stripped:
  assumes "strip s \<noteq> []"
  shows "py_split (takeWhile (\<lambda>c. c \<noteq> 10) (strip s)) \<noteq> []"
proof -
  from assms obtain c cs where eq: "strip s = c # cs" and nsp: "\<not> isspace c"
    by (rule strip_starts)
  from nsp isspace_newline have "c \<noteq> 10" by auto
  with eq nsp show ?thesis
    by (simp add: py_split_def split_ws_cur_nonempty)
qed

lemma parse_name_tokens:
  "parse_name content =
     (let toks = py_split (takeWhile (\<lambda>c. c \<noteq> 10) (strip content))
      in if toks = [] then Inl IndexError else Inr (join [32] (take 2 toks)))"
proof -
  let ?toks = "py_split (takeWhile (\<lambda>c. c \<noteq> 10) (strip content))"
  show ?thesis
  proof (cases ?toks)
    case Nil
    then show ?thesis
      by (simp add: parse_name_def index0_split_on py_split_strip index0_Nil)
  next
    case (Cons t ts)
    then show ?thesis
      by (cases ts) (simp_all add: parse_name_def index0_split_on py_split_strip index0_Cons)
  qed
qed

lemma name_of_outcome_blank:
  assumes "list_all isspace response"
  shows "name_of_outcome cluster_id (Inr (Some response # others)) = generic_name cluster_id"
proof -
  from assms have "strip response = []" by (simp add: strip_Nil_iff)
  then show ?thesis
    by (simp add: name_of_outcome_def try_name_def index0_Cons parse_name_tokens py_split_def)
qed


section \<open>The label parser\<close>

lemmas string_eval = lit_def isspace_def strip_def py_split_def

lemmas namer_eval =
  name_of_outcome_def try_name_def index0_Cons index0_Nil parse_name_tokens generic_name_def
  str_int_def str_nat.simps

text \<open>
  C8, as stated, does not hold. For the empty response the specification's parser gives
  the empty name, while the code raises \<open>IndexError\<close> inside the \<open>try\<close> and names the
  cluster \<open>Category 0\<close>; for a response that begins with a line break the specification's
  first line is empty, while the code strips the response first and finds the title.
\<close>

theorem parser_differs_from_spec:
  "name_of_outcome 0 (Inr [Some (lit [])]) = lit ''Category 0''
   \<and> spec_parse_name (lit []) = []
   \<and> name_of_outcome 0 (Inr [Some (10 # lit ''Alpha Beta'')]) = lit ''Alpha Beta''
   \<and> spec_parse_name (10 # lit ''Alpha Beta'') = []"
  by (simp add: namer_eval string_eval spec_parse_name_def)

text \<open>
  C8, amended. For every response that has a character which is not whitespace, the name
  is obtained from the response stripped of leading and trailing whitespace: its first
  line is split on whitespace and the first two tokens are joined with one space, or the
  only token is the name.
\<close>

theorem parser_follows_spec_on_stripped_response:
  assumes "\<not> list_all isspace response"
  shows "name_of_outcome cluster_id (Inr (Some response # others))
           = spec_parse_name (strip response)"
proof -
  from assms have "strip response \<noteq> []" by (simp add: strip_Nil_iff)
  then have "py_split (takeWhile (\<lambda>c. c \<noteq> 10) (strip response)) \<noteq> []"
    by (rule tokens_of_stripped)
  then show ?thesis
    by (simp add: name_of_outcome_def try_name_def index0_Cons parse_name_tokens
        spec_parse_name_def)
qed

theorem parser_follows_spec_witness:
  "\<not> list_all isspace (lit ''  Deep   Space Topics '' @ [10] @ lit ''more'')
   \<and> name_of_outcome 7 (Inr [Some (lit ''  Deep   Space Topics '' @ [10] @ lit ''more'')])
       = lit ''Deep Space''
   \<and> \<not> list_all isspace (lit '' Nebulae'' @ [10])
   \<and> name_of_outcome 7 (Inr [Some (lit '' Nebulae'' @ [10])]) = lit ''Nebulae''"
proof -
  have h1: "\<not> list_all isspace (lit ''  Deep   Space Topics '' @ [10] @ lit ''more'')"
    by (simp add: string_eval)
  have h2: "\<not> list_all isspace (lit '' Nebulae'' @ [10])"
    by (simp add: string_eval)
  have e1: "spec_parse_name (strip (lit ''  Deep   Space Topics '' @ [10] @ lit ''more''))
              = lit ''Deep Space''"
    by (simp add: string_eval spec_parse_name_def)
  have e2: "spec_parse_name (strip (lit '' Nebulae'' @ [10])) = lit ''Nebulae''"
    by (simp add: string_eval spec_parse_name_def)
  have n1: "name_of_outcome 7 (Inr [Some (lit ''  Deep   Space Topics '' @ [10] @ lit ''more'')])
              = lit ''Deep Space''"
    using parser_follows_spec_on_stripped_response [OF h1, of 7 "[]"] by (simp only: e1)
  have n2: "name_of_outcome 7 (Inr [Some (lit '' Nebulae'' @ [10])]) = lit ''Nebulae''"
    using parser_follows_spec_on_stripped_response [OF h2, of 7 "[]"] by (simp only: e2)
  from h1 n1 h2 n2 show ?thesis by blast
qed

section \<open>Properties of \<open>process_notes\<close>\<close>

subsection \<open>The node loop and the keys of the name dictionary\<close>

lemma build_nodes_Inr:
  "build_nodes i ns cluster_labels coords_3d names acc = Inr out \<Longrightarrow>
     map node_id out = map node_id acc @ [i..<i + length ns]
     \<and> map label out = map label acc @ ns
     \<and> map category out = map category acc @ map (\<lambda>j. cluster_labels ! j) [i..<i + length ns]
     \<and> (\<forall>j. i \<le> j \<and> j < i + length ns \<longrightarrow> j < length cluster_labels)"
proof (induction ns arbitrary: i acc)
  case Nil
  then show ?case by simp
next
  case (Cons n rest)
  from Cons.prems obtain x y z where
    i: "i < length cluster_labels" and
    rec: "build_nodes (Suc i) rest cluster_labels coords_3d names
            (acc @ [\<lparr>node_id = i, label = n, node_x = x, node_y = y, node_z = z,
                     category = cluster_labels ! i,
                     cluster_label = (case map_of names (cluster_labels ! i) of
                                        None \<Rightarrow> generic_name (cluster_labels ! i)
                                      | Some name \<Rightarrow> name)\<rparr>]) = Inr out"
    by (auto simp: Let_def split: if_splits sum.splits)
  have upt: "[i..<i + length (n # rest)] = i # [Suc i..<Suc i + length rest]"
    by (simp add: upt_conv_Cons del: upt_Suc)
  have bound: "j < length cluster_labels"
    if "i \<le> j \<and> j < i + length (n # rest)" for j
  proof (cases "j = i")
    case True
    with i show ?thesis by simp
  next
    case False
    with that have "Suc i \<le> j \<and> j < Suc i + length rest" by simp
    with Cons.IH [OF rec] show ?thesis by blast
  qed
  from Cons.IH [OF rec] bound show ?case
    unfolding upt by simp
qed

lemma set_unique_clusters: "set (unique_clusters ls) = set ls"
  by (simp add: unique_clusters_def)

lemma name_loop_keys:
  "name_loop env g cluster_labels ns cs names w = (Inr names', w') \<Longrightarrow>
     fst ` set names' = fst ` set names \<union> set cs"
proof (induction cs arbitrary: names w)
  case Nil
  then show ?case by simp
next
  case (Cons c cs)
  then show ?case
    by (auto simp: AList.dom_update split: prod.splits sum.splits)
qed

lemma name_clusters_keys:
  assumes "name_clusters env self cluster_labels ns w = (Inr names, w')"
  shows "fst ` set names = set cluster_labels"
proof (cases "groq_client self")
  case None
  with assms show ?thesis
    by (auto simp: name_clusters_def set_unique_clusters image_image)
next
  case (Some g)
  with assms have "name_loop env g cluster_labels ns (unique_clusters cluster_labels) [] w
      = (Inr names, w')"
    by (simp add: name_clusters_def)
  from name_loop_keys [OF this] show ?thesis
    by (simp add: set_unique_clusters)
qed

lemma map_pair_id: "map (\<lambda>(k, v). (k, v)) names = names"
  by (induction names) auto

lemma process_notes_Nil: "process_notes env self [] w = (Inr \<lparr>nodes = [], cluster_names = []\<rparr>, self, w)"
  by (simp add: process_notes_def)

text \<open>What a normal return on a non-empty list says about the run.\<close>

lemma process_notes_InrE:
  assumes "fst (process_notes env self ns w) = Inr res" and "ns \<noteq> []"
  obtains embeddings w1 cluster_labels w2 coords_3d w3 self4 w4 where
    "encode env (model self) ns w = (Inr embeddings, w1)"
    "fit_predict env (kmeans_args self) embeddings w1 = (Inr cluster_labels, w2)"
    "fit_transform env (umap_args ns) embeddings w2 = (Inr coords_3d, w3)"
    "name_clusters env self4 cluster_labels ns w3 = (Inr (cluster_names res), w4)"
    "groq_client self4 = groq_client self"
    "build_nodes 0 ns cluster_labels coords_3d (cluster_names res) [] = Inr (nodes res)"
  using assms
  by (auto simp: process_notes_def Let_def map_pair_id split: prod.splits sum.splits)

lemma categories_keys:
  assumes "fst (process_notes env self ns w) = Inr res"
  shows "category ` set (nodes res) \<subseteq> fst ` set (cluster_names res)"
proof (cases "ns = []")
  case True
  with assms show ?thesis by (auto simp: process_notes_Nil)
next
  case False
  from assms False obtain cluster_labels coords_3d self4 w3 w4 where
    names: "name_clusters env self4 cluster_labels ns w3 = (Inr (cluster_names res), w4)" and
    build: "build_nodes 0 ns cluster_labels coords_3d (cluster_names res) [] = Inr (nodes res)"
    by (rule process_notes_InrE)
  from build_nodes_Inr [OF build]
  have cats: "map category (nodes res) = map (\<lambda>j. cluster_labels ! j) [0..<length ns]"
    and bound: "\<forall>j. j < length ns \<longrightarrow> j < length cluster_labels"
    by simp_all
  have "set (map category (nodes res)) \<subseteq> set cluster_labels"
    unfolding cats using bound by auto
  with name_clusters_keys [OF names] show ?thesis by simp
qed

lemma name_clusters_cong:
  "groq_client s1 = groq_client s2 \<Longrightarrow>
     name_clusters env s1 cluster_labels ns w = name_clusters env s2 cluster_labels ns w"
  by (simp add: name_clusters_def)

lemma process_notes_config:
  "model (fst (snd (process_notes env self ns w))) = model self
   \<and> n_clusters (fst (snd (process_notes env self ns w))) = n_clusters self
   \<and> groq_client (fst (snd (process_notes env self ns w))) = groq_client self"
  by (simp add: process_notes_def Let_def split: prod.splits sum.splits)

lemmas pipeline_eval =
  process_notes_def test_env_def test_renderer_def kmeans_args_def umap_args_def
  n_neighbors_val_def name_clusters_def unique_clusters_def coord_def n_samples_message_def
  generic_name_def str_int_def str_nat.simps lit_def Let_def

lemma test_run:
  "fst (process_notes test_env (test_renderer 2 None) [lit ''ab'', lit ''c''] 0)
     = Inr test_galaxy"
  by (simp add: pipeline_eval test_galaxy_def)

subsection \<open>Empty input, node order and referential integrity\<close>

text \<open>
  C2. For the empty note list \<open>process_notes\<close> returns \<open>{nodes: [], cluster_names: {}}\<close> at
  once: the instance and the world are the ones it was called with, whatever the
  collaborators are, so none of them (embedder, clusterer, projector, namer) was invoked.
\<close>

theorem process_notes_empty:
  "process_notes env self [] w = (Inr \<lparr>nodes = [], cluster_names = []\<rparr>, self, w)"
  by (simp add: process_notes_def)

text \<open>
  C3. Whenever \<open>process_notes\<close> returns normally on a list of \<open>N\<close> notes, the returned
  nodes are \<open>N\<close>, in the order of the notes: the \<open>i\<close>-th node has id \<open>i\<close> and the \<open>i\<close>-th text as
  its label, so every index below \<open>N\<close> occurs exactly once.
\<close>

theorem nodes_in_note_order:
  assumes "fst (process_notes env self ns w) = Inr res"
  shows "length (nodes res) = length ns
         \<and> map node_id (nodes res) = [0..<length ns]
         \<and> map label (nodes res) = ns"
proof (cases "ns = []")
  case True
  with assms show ?thesis by (auto simp: process_notes_Nil)
next
  case False
  from assms False obtain cluster_labels coords_3d where
    "build_nodes 0 ns cluster_labels coords_3d (cluster_names res) [] = Inr (nodes res)"
    by (rule process_notes_InrE)
  from build_nodes_Inr [OF this]
  have ids: "map node_id (nodes res) = [0..<length ns]" and labels: "map label (nodes res) = ns"
    by simp_all
  have "length (nodes res) = length (map label (nodes res))" by simp
  also have "\<dots> = length ns" by (simp only: labels)
  finally show ?thesis using ids labels by simp
qed

theorem nodes_in_note_order_witness:
  "fst (process_notes test_env (test_renderer 2 None) [lit ''ab'', lit ''c''] 0)
     = Inr test_galaxy
   \<and> length (nodes test_galaxy) = 2
   \<and> map node_id (nodes test_galaxy) = [0, 1]
   \<and> map label (nodes test_galaxy) = [lit ''ab'', lit ''c'']"
  using nodes_in_note_order [OF test_run] test_run by (simp add: upt_rec)

text \<open>
  C4. Whenever \<open>process_notes\<close> returns normally, every category of a returned node is a
  key of the returned dictionary of cluster names.
\<close>

theorem categories_have_names:
  assumes "fst (process_notes env self ns w) = Inr res"
  shows "category ` set (nodes res) \<subseteq> fst ` set (cluster_names res)"
  using assms by (rule categories_keys)

theorem categories_have_names_witness:
  "fst (process_notes test_env (test_renderer 2 None) [lit ''ab'', lit ''c''] 0)
     = Inr test_galaxy
   \<and> category ` set (nodes test_galaxy) \<subseteq> fst ` set (cluster_names test_galaxy)
   \<and> map category (nodes test_galaxy) = [0, 1]
   \<and> map fst (cluster_names test_galaxy) = [0, 1]"
  using categories_have_names [OF test_run] test_run by (simp add: test_galaxy_def)

subsection \<open>Fewer notes than clusters\<close>

text \<open>
  The cluster count given to \<open>KMeans\<close> is the configured one whatever the number of
  notes, and an exception of the clusterer leaves \<open>process_notes\<close>.
\<close>

lemma kmeans_args_cluster_count: "km_n_clusters (kmeans_args self) = n_clusters self"
  by (simp add: kmeans_args_def)

lemma clusterer_error_propagates:
  assumes "ns \<noteq> []" and "encode env (model self) ns w = (Inr embeddings, w1)"
    and "fit_predict env (kmeans_args self) embeddings w1 = (Inl e, w2)"
  shows "fst (process_notes env self ns w) = Inl e"
  using assms by (simp add: process_notes_def Let_def)

text \<open>
  C1. The claim asks that fewer notes than clusters never make the clusterer fail. The
  code hands \<open>self.n_clusters\<close> to \<open>KMeans\<close> unreduced, although it adapts the neighbourhood
  size of the projector to short lists; scikit-learn rejects fewer samples than clusters,
  and the exception leaves \<open>process_notes\<close>. Here: two notes with the default of five
  clusters.
\<close>

theorem small_note_list_raises:
  "fst (process_notes test_env (test_renderer default_n_clusters None)
          [lit ''ab'', lit ''c''] 0)
     = Inl (ValueError (lit ''n_samples=2 should be >= n_clusters=5.''))"
  by (simp add: pipeline_eval default_n_clusters_def)

subsection \<open>State kept on the instance\<close>

lemma take_nth_upt: "n \<le> length xs \<Longrightarrow> map (\<lambda>j. xs ! j) [0..<n] = take n xs"
  by (rule nth_equalityI) simp_all

lemma take_three: "2 < length xs \<Longrightarrow> take 3 xs = [xs ! 0, xs ! 1, xs ! 2]"
proof -
  assume len: "2 < length xs"
  then obtain a ys where xs: "xs = a # ys" by (cases xs) auto
  with len obtain b zs where ys: "ys = b # zs" by (cases ys) auto
  with len xs obtain c row where zs: "zs = c # row" by (cases zs) auto
  show ?thesis unfolding xs ys zs by (simp add: numeral_3_eq_3 numeral_2_eq_2)
qed

text \<open>The coordinates of the nodes are the first three entries of the projector's rows.\<close>

lemma build_nodes_coords:
  "build_nodes i ns cluster_labels coords_3d names acc = Inr out \<Longrightarrow>
     map (\<lambda>n. [node_x n, node_y n, node_z n]) out
       = map (\<lambda>n. [node_x n, node_y n, node_z n]) acc
         @ map (\<lambda>j. take 3 (coords_3d ! j)) [i..<i + length ns]
     \<and> (\<forall>j. i \<le> j \<and> j < i + length ns \<longrightarrow> j < length coords_3d)"
proof (induction ns arbitrary: i acc)
  case Nil
  then show ?case by simp
next
  case (Cons n rest)
  from Cons.prems obtain x y z where
    cx: "coord coords_3d i 0 = Inr x" and cy: "coord coords_3d i 1 = Inr y" and
    cz: "coord coords_3d i 2 = Inr z" and
    rec: "build_nodes (Suc i) rest cluster_labels coords_3d names
            (acc @ [\<lparr>node_id = i, label = n, node_x = x, node_y = y, node_z = z,
                     category = cluster_labels ! i,
                     cluster_label = (case map_of names (cluster_labels ! i) of
                                        None \<Rightarrow> generic_name (cluster_labels ! i)
                                      | Some name \<Rightarrow> name)\<rparr>]) = Inr out"
    by (auto simp: Let_def split: if_splits sum.splits)
  from cz have i: "i < length coords_3d" and len: "2 < length (coords_3d ! i)"
    by (simp_all add: coord_def split: if_splits)
  from cx cy cz i len have xyz: "x = coords_3d ! i ! 0" "y = coords_3d ! i ! 1"
    "z = coords_3d ! i ! 2"
    by (auto simp: coord_def split: if_splits)
  from take_three [OF len] xyz have take: "take 3 (coords_3d ! i) = [x, y, z]"
    by simp
  have upt: "[i..<i + length (n # rest)] = i # [Suc i..<Suc i + length rest]"
    by (simp add: upt_conv_Cons del: upt_Suc)
  have bound: "j < length coords_3d"
    if "i \<le> j \<and> j < i + length (n # rest)" for j
  proof (cases "j = i")
    case True
    with i show ?thesis by simp
  next
    case False
    with that have "Suc i \<le> j \<and> j < Suc i + length rest" by simp
    with Cons.IH [OF rec] show ?thesis by blast
  qed
  from Cons.IH [OF rec] bound take show ?case
    unfolding upt by simp
qed

text \<open>What a normal return on a non-empty list leaves in the two fields.\<close>

lemma process_notes_stores:
  assumes "fst (process_notes env self ns w) = Inr res" and "ns \<noteq> []"
  obtains cluster_labels coords_3d where
    "kmeans (fst (snd (process_notes env self ns w)))
       = Some \<lparr>km_params = kmeans_args self, km_labels = Some cluster_labels\<rparr>"
    "umap_reducer (fst (snd (process_notes env self ns w)))
       = Some \<lparr>um_params = umap_args ns, um_embedding = Some coords_3d\<rparr>"
    "build_nodes 0 ns cluster_labels coords_3d (cluster_names res) [] = Inr (nodes res)"
  using assms
  by (auto simp: process_notes_def Let_def map_pair_id split: prod.splits sum.splits)

text \<open>
  C9, amended. A call of \<open>process_notes\<close> leaves the configuration of the instance (model,
  cluster count, client) as it was, and what it returns and the world it leaves do not
  depend on the handles that earlier calls left in \<open>self.kmeans\<close> and \<open>self.umap_reducer\<close>.
  The two fields do hold state of the last call: after a call on a non-empty list that
  returns normally they hold the estimators that the call constructed, fitted, with the
  labels and the coordinates from which the returned nodes were built.
\<close>

theorem earlier_handles_do_not_matter:
  "fst (process_notes env (self\<lparr>kmeans := h1, umap_reducer := h2\<rparr>) ns w)
     = fst (process_notes env self ns w)
   \<and> snd (snd (process_notes env (self\<lparr>kmeans := h1, umap_reducer := h2\<rparr>) ns w))
     = snd (snd (process_notes env self ns w))
   \<and> model (fst (snd (process_notes env self ns w))) = model self
   \<and> n_clusters (fst (snd (process_notes env self ns w))) = n_clusters self
   \<and> groq_client (fst (snd (process_notes env self ns w))) = groq_client self
   \<and> (\<forall>res. ns \<noteq> [] \<and> fst (process_notes env self ns w) = Inr res \<longrightarrow>
         (\<exists>cluster_labels coords_3d.
            kmeans (fst (snd (process_notes env self ns w)))
              = Some \<lparr>km_params = kmeans_args self, km_labels = Some cluster_labels\<rparr>
            \<and> umap_reducer (fst (snd (process_notes env self ns w)))
              = Some \<lparr>um_params = umap_args ns, um_embedding = Some coords_3d\<rparr>
            \<and> map category (nodes res) = take (length ns) cluster_labels
            \<and> map (\<lambda>n. [node_x n, node_y n, node_z n]) (nodes res)
              = map (take 3) (take (length ns) coords_3d)))"
proof -
  have same: "fst (process_notes env (self\<lparr>kmeans := h1, umap_reducer := h2\<rparr>) ns w)
          = fst (process_notes env self ns w)
        \<and> snd (snd (process_notes env (self\<lparr>kmeans := h1, umap_reducer := h2\<rparr>) ns w))
          = snd (snd (process_notes env self ns w))"
    by (simp add: process_notes_def Let_def kmeans_args_def name_clusters_def
        split: prod.splits sum.splits)
  have stored: "\<exists>cluster_labels coords_3d.
      kmeans (fst (snd (process_notes env self ns w)))
        = Some \<lparr>km_params = kmeans_args self, km_labels = Some cluster_labels\<rparr>
      \<and> umap_reducer (fst (snd (process_notes env self ns w)))
        = Some \<lparr>um_params = umap_args ns, um_embedding = Some coords_3d\<rparr>
      \<and> map category (nodes res) = take (length ns) cluster_labels
      \<and> map (\<lambda>n. [node_x n, node_y n, node_z n]) (nodes res)
        = map (take 3) (take (length ns) coords_3d)"
    if ne: "ns \<noteq> []" and run: "fst (process_notes env self ns w) = Inr res" for res
  proof -
    from run ne obtain cluster_labels coords_3d where
      km: "kmeans (fst (snd (process_notes env self ns w)))
         = Some \<lparr>km_params = kmeans_args self, km_labels = Some cluster_labels\<rparr>" and
      um: "umap_reducer (fst (snd (process_notes env self ns w)))
         = Some \<lparr>um_params = umap_args ns, um_embedding = Some coords_3d\<rparr>" and
      build: "build_nodes 0 ns cluster_labels coords_3d (cluster_names res) [] = Inr (nodes res)"
      by (rule process_notes_stores)
    from build_nodes_Inr [OF build]
    have cats: "map category (nodes res) = map (\<lambda>j. cluster_labels ! j) [0..<length ns]"
      and lb: "\<forall>j. j < length ns \<longrightarrow> j < length cluster_labels"
      by simp_all
    from build_nodes_coords [OF build]
    have xyz: "map (\<lambda>n. [node_x n, node_y n, node_z n]) (nodes res)
        = map (\<lambda>j. take 3 (coords_3d ! j)) [0..<length ns]"
      and cb: "\<forall>j. j < length ns \<longrightarrow> j < length coords_3d"
      by simp_all
    from ne lb have l1: "length ns \<le> length cluster_labels"
      by (metis length_greater_0_conv Suc_pred lessI less_eq_Suc_le)
    from ne cb have l2: "length ns \<le> length coords_3d"
      by (metis length_greater_0_conv Suc_pred lessI less_eq_Suc_le)
    have "map category (nodes res) = take (length ns) cluster_labels"
      unfolding cats by (rule take_nth_upt [OF l1])
    moreover have "map (\<lambda>n. [node_x n, node_y n, node_z n]) (nodes res)
        = map (take 3) (take (length ns) coords_3d)"
    proof -
      have "map (\<lambda>j. take 3 (coords_3d ! j)) [0..<length ns]
          = map (take 3) (map (\<lambda>j. coords_3d ! j) [0..<length ns])"
        by simp
      also have "\<dots> = map (take 3) (take (length ns) coords_3d)"
        by (simp only: take_nth_upt [OF l2])
      finally show ?thesis unfolding xyz .
    qed
    ultimately show ?thesis using km um by blast
  qed
  from same process_notes_config [of env self ns w] stored show ?thesis by blast
qed

theorem earlier_handles_do_not_matter_witness:
  "[lit ''ab'', lit ''c''] \<noteq> []
   \<and> fst (process_notes test_env (test_renderer 2 None) [lit ''ab'', lit ''c''] 0)
       = Inr test_galaxy
   \<and> (\<exists>cluster_labels coords_3d.
         kmeans (fst (snd (process_notes test_env (test_renderer 2 None)
                  [lit ''ab'', lit ''c''] 0)))
           = Some \<lparr>km_params = kmeans_args (test_renderer 2 None),
                   km_labels = Some cluster_labels\<rparr>
         \<and> umap_reducer (fst (snd (process_notes test_env (test_renderer 2 None)
                  [lit ''ab'', lit ''c''] 0)))
           = Some \<lparr>um_params = umap_args [lit ''ab'', lit ''c''],
                   um_embedding = Some coords_3d\<rparr>
         \<and> map category (nodes test_galaxy) = take 2 cluster_labels
         \<and> map (\<lambda>n. [node_x n, node_y n, node_z n]) (nodes test_galaxy)
           = map (take 3) (take 2 coords_3d))
   \<and> fst (process_notes test_env
            ((test_renderer 2 None)\<lparr>kmeans := Some \<lparr>km_params = kmeans_args (test_renderer 5 None),
                                                  km_labels = Some [4, 4, 4]\<rparr>,
                                     umap_reducer := None\<rparr>)
            [lit ''ab'', lit ''c''] 0)
       = Inr test_galaxy"
proof -
  let ?h = "Some \<lparr>km_params = kmeans_args (test_renderer 5 None), km_labels = Some [4, 4, 4]\<rparr>"
  have ne: "[lit ''ab'', lit ''c''] \<noteq> []" by simp
  note inst = earlier_handles_do_not_matter
    [where env = test_env and self = "test_renderer 2 None" and ?h1.0 = ?h and ?h2.0 = None
       and ns = "[lit ''ab'', lit ''c'']" and w = 0]
  from inst ne test_run show ?thesis by (auto simp: numeral_2_eq_2)
qed

text \<open>
  C9, as stated, does not hold: a call stores the estimator it fitted in the instance.
  \<open>self.kmeans\<close>, which was \<open>None\<close>, holds after a call on two notes the estimator fitted
  to them, with their labels.
\<close>

theorem handles_stored_on_instance:
  "kmeans (test_renderer 2 None) = None
   \<and> kmeans (fst (snd (process_notes test_env (test_renderer 2 None)
               [lit ''ab'', lit ''c''] 0)))
       = Some \<lparr>km_params = \<lparr>km_n_clusters = 2, km_random_state = 42, km_n_init = 10\<rparr>,
               km_labels = Some [0, 1]\<rparr>"
  by (simp add: pipeline_eval)

subsection \<open>Naming without a client\<close>








subsection \<open>Naming with a client\<close>

lemma update_fresh: "k \<notin> fst ` set al \<Longrightarrow> AList.update k v al = al @ [(k, v)]"
  by (induction al) auto

lemma distinct_unique_clusters: "distinct (unique_clusters ls)"
  by (simp add: unique_clusters_def)

lemma cluster_notes_of_enough_labels:
  assumes "length ns \<le> length cluster_labels"
  obtains cluster_notes where "cluster_notes_of cluster_labels ns c = Inr cluster_notes"
  using assms by (simp add: cluster_notes_of_def)

lemma outcomes_keys:
  assumes "length ns \<le> length cluster_labels"
  shows "map fst (outcomes env g cluster_labels ns cs w) = cs"
proof (induction cs arbitrary: w)
  case Nil
  show ?case by simp
next
  case (Cons c cs)
  from assms obtain cluster_notes where
    "cluster_notes_of cluster_labels ns c = Inr cluster_notes"
    by (rule cluster_notes_of_enough_labels)
  then show ?case
    by (simp add: Cons.IH split: prod.splits)
qed

text \<open>
  With a label for every note the loop never raises, and it is a map over the outcomes
  of the requests: the entry of a cluster is computed from the outcome of its own
  request.
\<close>

lemma name_loop_outcomes:
  assumes "length ns \<le> length cluster_labels"
    and "distinct cs" and "set cs \<inter> fst ` set names = {}"
  shows "fst (name_loop env g cluster_labels ns cs names w)
           = Inr (names @ map (\<lambda>(c, outcome). (c, name_of_outcome c outcome))
                            (outcomes env g cluster_labels ns cs w))"
  using assms(2,3)
proof (induction cs arbitrary: names w)
  case Nil
  show ?case by simp
next
  case (Cons c cs)
  from assms(1) obtain cluster_notes where
    cn: "cluster_notes_of cluster_labels ns c = Inr cluster_notes"
    by (rule cluster_notes_of_enough_labels)
  obtain outcome w1 where asked: "ask env g cluster_notes w = (outcome, w1)"
    by (cases "ask env g cluster_notes w")
  from Cons.prems have fresh: "c \<notin> fst ` set names" by auto
  let ?names = "names @ [(c, name_of_outcome c outcome)]"
  from Cons.prems have "distinct cs" and "set cs \<inter> fst ` set ?names = {}" by auto
  from Cons.IH [OF this]
  have "fst (name_loop env g cluster_labels ns cs ?names w1)
          = Inr (?names @ map (\<lambda>(c, outcome). (c, name_of_outcome c outcome))
                            (outcomes env g cluster_labels ns cs w1))" .
  with cn asked fresh show ?case
    by (simp add: name_one_def update_fresh)
qed

lemma build_nodes_total:
  assumes "i + length ns \<le> length cluster_labels"
    and "i + length ns \<le> length coords_3d"
    and "list_all (\<lambda>row. length row = 3) coords_3d"
  shows "\<exists>out. build_nodes i ns cluster_labels coords_3d names acc = Inr out"
  using assms(1,2)
proof (induction ns arbitrary: i acc)
  case Nil
  show ?case by simp
next
  case (Cons n rest)
  from Cons.prems have i: "i < length cluster_labels" "i < length coords_3d" by simp_all
  with assms(3) have row: "length (coords_3d ! i) = 3" by (simp add: list_all_length)
  from Cons.prems have "Suc i + length rest \<le> length cluster_labels"
    and "Suc i + length rest \<le> length coords_3d" by simp_all
  from Cons.IH [OF this] i row show ?case
    by (simp add: coord_def Let_def)
qed

lemma test_run3:
  "fst (process_notes test_env (test_renderer 3 (Some ())) [lit [], lit ''c'', lit ''ab''] 0)
     = Inr test_galaxy3"
  by (simp add: pipeline_eval name_one_def cluster_notes_of_def ask_def namer_eval
      string_eval test_galaxy3_def)

text \<open>
  C7. Let the embedder, the clusterer and the projector succeed, with one label and one
  row of three coordinates for every note, on an instance that has a client. Then
  \<open>process_notes\<close> returns normally whatever the requests to the external capability do.
  The returned dictionary has one entry for each cluster, in ascending order, computed
  from the outcome of that cluster's own request: a cluster whose request raised is
  named \<open>Category {id}\<close>, and a cluster whose response parses to a title is named by
  that title, whatever happened to the requests of the other clusters.
\<close>

theorem namer_failures_are_isolated:
  assumes "ns \<noteq> []" and "groq_client self = Some g"
    and "encode env (model self) ns w = (Inr embeddings, w1)"
    and "fit_predict env (kmeans_args self) embeddings w1 = (Inr cluster_labels, w2)"
    and "fit_transform env (umap_args ns) embeddings w2 = (Inr coords_3d, w3)"
    and "length cluster_labels = length ns" and "length coords_3d = length ns"
    and "list_all (\<lambda>row. length row = 3) coords_3d"
  shows "\<exists>res. fst (process_notes env self ns w) = Inr res
           \<and> cluster_names res
               = map (\<lambda>(c, outcome). (c, name_of_outcome c outcome))
                   (outcomes env g cluster_labels ns (unique_clusters cluster_labels) w3)
           \<and> map fst (cluster_names res) = unique_clusters cluster_labels
           \<and> (\<forall>c e. (c, Inl e)
                       \<in> set (outcomes env g cluster_labels ns
                                (unique_clusters cluster_labels) w3)
                 \<longrightarrow> map_of (cluster_names res) c = Some (generic_name c))
           \<and> (\<forall>c choices name. (c, Inr choices)
                       \<in> set (outcomes env g cluster_labels ns
                                (unique_clusters cluster_labels) w3)
                 \<longrightarrow> try_name (Inr choices) = Inr name
                 \<longrightarrow> map_of (cluster_names res) c = Some name)"
proof -
  let ?cs = "unique_clusters cluster_labels"
  let ?outs = "outcomes env g cluster_labels ns ?cs w3"
  let ?names = "map (\<lambda>(c, outcome). (c, name_of_outcome c outcome)) ?outs"
  from assms(6) have len: "length ns \<le> length cluster_labels" by simp
  have "fst (name_loop env g cluster_labels ns ?cs [] w3) = Inr ([] @ ?names)"
    by (rule name_loop_outcomes [OF len distinct_unique_clusters]) simp
  then obtain w4 where
    loop: "name_loop env g cluster_labels ns ?cs [] w3 = (Inr ?names, w4)"
    by (cases "name_loop env g cluster_labels ns ?cs [] w3") simp
  from assms(6-8) obtain out where
    build: "build_nodes 0 ns cluster_labels coords_3d ?names [] = Inr out"
    using build_nodes_total [of 0 ns cluster_labels coords_3d ?names "[]"] by auto
  let ?res = "\<lparr>nodes = out, cluster_names = ?names\<rparr>"
  from assms(1-5) loop build have run: "fst (process_notes env self ns w) = Inr ?res"
    by (simp add: process_notes_def Let_def name_clusters_def map_pair_id)
  have keys: "map fst ?names = ?cs"
    using outcomes_keys [OF len, of env g ?cs w3]
    by (simp add: case_prod_beta comp_def)
  then have dist: "distinct (map fst ?names)"
    by (simp only: distinct_unique_clusters)
  have entry: "map_of ?names c = Some (name_of_outcome c outcome)"
    if "(c, outcome) \<in> set ?outs" for c outcome
  proof -
    from that have "(c, name_of_outcome c outcome) \<in> set ?names" by force
    with dist show ?thesis by (rule map_of_is_SomeI)
  qed
  have failed: "map_of ?names c = Some (generic_name c)" if "(c, Inl e) \<in> set ?outs" for c e
    using entry [OF that] by (simp add: name_of_outcome_def try_name_def)
  have titled: "map_of ?names c = Some name"
    if "(c, Inr choices) \<in> set ?outs" and "try_name (Inr choices) = Inr name"
    for c choices name
    using entry [OF that(1)] that(2) by (simp add: name_of_outcome_def)
  from run keys failed titled show ?thesis
    by (intro exI [of _ ?res]) auto
qed

theorem namer_failures_are_isolated_witness:
  "fst (process_notes test_env (test_renderer 3 (Some ())) [lit [], lit ''c'', lit ''ab''] 0)
     = Inr test_galaxy3
   \<and> outcomes test_env () [0, 1, 2] [lit [], lit ''c'', lit ''ab''] (unique_clusters [0, 1, 2]) 0
       = [(0, Inr [Some (lit ''Deep Space Topics'')]),
          (1, Inr [Some (lit ''Deep Space Topics'')]),
          (2, Inl (LibraryError (lit ''rate limit'')))]
   \<and> cluster_names test_galaxy3
       = [(0, lit ''Deep Space''), (1, lit ''Deep Space''), (2, lit ''Category 2'')]"
proof -
  let ?ns = "[lit [], lit ''c'', lit ''ab'']"
  let ?self = "test_renderer 3 (Some ())"
  have run: "fst (process_notes test_env ?self ?ns 0) = Inr test_galaxy3"
    by (rule test_run3)
  have outs: "outcomes test_env () [0, 1, 2] ?ns (unique_clusters [0, 1, 2]) 0
      = [(0, Inr [Some (lit ''Deep Space Topics'')]),
         (1, Inr [Some (lit ''Deep Space Topics'')]),
         (2, Inl (LibraryError (lit ''rate limit'')))]"
    by (simp add: unique_clusters_def cluster_notes_of_def ask_def test_env_def)
  have "\<exists>res. fst (process_notes test_env ?self ?ns 0) = Inr res
          \<and> cluster_names res
              = map (\<lambda>(c, outcome). (c, name_of_outcome c outcome))
                  (outcomes test_env () [0, 1, 2] ?ns (unique_clusters [0, 1, 2]) 0)
          \<and> map fst (cluster_names res) = unique_clusters [0, 1, 2]
          \<and> (\<forall>c e. (c, Inl e)
                      \<in> set (outcomes test_env () [0, 1, 2] ?ns (unique_clusters [0, 1, 2]) 0)
                \<longrightarrow> map_of (cluster_names res) c = Some (generic_name c))
          \<and> (\<forall>c choices name. (c, Inr choices)
                      \<in> set (outcomes test_env () [0, 1, 2] ?ns (unique_clusters [0, 1, 2]) 0)
                \<longrightarrow> try_name (Inr choices) = Inr name
                \<longrightarrow> map_of (cluster_names res) c = Some name)"
    by (rule namer_failures_are_isolated [where ?embeddings = "[0, 1, 2]" and ?w1.0 = 0
          and ?w2.0 = 0 and ?coords_3d = "[[0, 0, 1], [1, 0, 1], [2, 0, 1]]"])
       (simp_all add: test_env_def test_renderer_def kmeans_args_def lit_def)
  with run have "cluster_names test_galaxy3
      = map (\<lambda>(c, outcome). (c, name_of_outcome c outcome))
          (outcomes test_env () [0, 1, 2] ?ns (unique_clusters [0, 1, 2]) 0)"
    by auto
  also have "\<dots> = [(0, lit ''Deep Space''), (1, lit ''Deep Space''), (2, lit ''Category 2'')]"
    unfolding outs by (simp add: namer_eval string_eval)
  finally show ?thesis using run outs by simp
qed

subsection \<open>Reproducibility\<close>

lemma build_nodes_error:
  "build_nodes i ns cluster_labels coords_3d names acc = Inl e \<Longrightarrow> e = IndexError"
  by (induction ns arbitrary: i acc)
     (auto simp: Let_def coord_def split: if_splits sum.splits)

lemma build_nodes_too_few_labels:
  assumes "length cluster_labels < length ns"
  shows "build_nodes 0 ns cluster_labels coords_3d names [] = Inl IndexError"
proof (cases "build_nodes 0 ns cluster_labels coords_3d names []")
  case (Inl e)
  with build_nodes_error [OF Inl] show ?thesis by simp
next
  case (Inr out)
  from build_nodes_Inr [OF Inr] assms have "length cluster_labels < length cluster_labels"
    by auto
  then show ?thesis by simp
qed

lemma name_loop_error:
  "fst (name_loop env g cluster_labels ns cs names w) = Inl e \<Longrightarrow>
     e = IndexError \<and> length cluster_labels < length ns"
  by (induction cs arbitrary: names w)
     (auto simp: name_one_def cluster_notes_of_def split: prod.splits sum.splits if_splits)

lemma name_clusters_error:
  "fst (name_clusters env self cluster_labels ns w) = Inl e \<Longrightarrow>
     e = IndexError \<and> length cluster_labels < length ns"
  by (auto simp: name_clusters_def dest: name_loop_error split: option.splits)

text \<open>The placements that the node loop produces do not depend on the names.\<close>

lemma build_nodes_placements:
  "map placement acc = map placement acc' \<Longrightarrow>
     map_sum id (map placement) (build_nodes i ns cluster_labels coords_3d names acc)
       = map_sum id (map placement) (build_nodes i ns cluster_labels coords_3d names' acc')"
proof (induction ns arbitrary: i acc acc')
  case Nil
  then show ?case by simp
next
  case (Cons n rest)
  show ?case
  proof (cases "i < length cluster_labels \<and> (\<exists>x y z. coord coords_3d i 0 = Inr x
      \<and> coord coords_3d i 1 = Inr y \<and> coord coords_3d i 2 = Inr z)")
    case True
    then obtain x y z where i: "i < length cluster_labels" and
      c: "coord coords_3d i 0 = Inr x" "coord coords_3d i 1 = Inr y" "coord coords_3d i 2 = Inr z"
      by blast
    let ?node = "\<lambda>names. \<lparr>node_id = i, label = n, node_x = x, node_y = y, node_z = z,
        category = cluster_labels ! i,
        cluster_label = (case map_of names (cluster_labels ! i) of
                           None \<Rightarrow> generic_name (cluster_labels ! i) | Some name \<Rightarrow> name)\<rparr>"
    have step: "build_nodes i (n # rest) cluster_labels coords_3d nm a
        = build_nodes (Suc i) rest cluster_labels coords_3d nm (a @ [?node nm])" for nm a
      using i c by (simp add: Let_def)
    have "map placement (acc @ [?node names]) = map placement (acc' @ [?node names'])"
      by (simp add: Cons.prems placement_def)
    then show ?thesis
      unfolding step by (rule Cons.IH)
  next
    case False
    then show ?thesis
      by (auto simp: Let_def coord_def split: sum.splits if_splits)
  qed
qed

text \<open>After the three fits, the placements are those of the node loop.\<close>

lemma finish_placements:
  "placements (fst (case name_clusters env self4 cluster_labels ns w3 of
       (Inl e, w4) \<Rightarrow> (Inl e, self4, w4)
     | (Inr names, w4) \<Rightarrow>
         (case build_nodes 0 ns cluster_labels coords_3d names [] of
            Inl e \<Rightarrow> (Inl e, self4, w4)
          | Inr out \<Rightarrow> (Inr \<lparr>nodes = out, cluster_names = map (\<lambda>(k, v). (k, v)) names\<rparr>,
                        self4, w4))))
     = map_sum id (map placement) (build_nodes 0 ns cluster_labels coords_3d [] [])"
proof -
  obtain r w4 where nc: "name_clusters env self4 cluster_labels ns w3 = (r, w4)"
    by (cases "name_clusters env self4 cluster_labels ns w3")
  show ?thesis
  proof (cases r)
    case (Inl e)
    with nc name_clusters_error [of env self4 cluster_labels ns w3 e]
    have "e = IndexError" and "length cluster_labels < length ns" by simp_all
    with nc Inl show ?thesis
      by (simp add: placements_def build_nodes_too_few_labels)
  next
    case (Inr names)
    have "map_sum id (map placement) (build_nodes 0 ns cluster_labels coords_3d names [])
        = map_sum id (map placement) (build_nodes 0 ns cluster_labels coords_3d [] [])"
      by (rule build_nodes_placements) simp
    with nc Inr show ?thesis
      by (cases "build_nodes 0 ns cluster_labels coords_3d names []")
         (auto simp: placements_def)
  qed
qed

text \<open>
  C5. Let the libraries be reproducible. Two calls of \<open>process_notes\<close> on the same notes,
  on instances with the same model and cluster count, agree on everything but the names,
  whatever the worlds they run in, the handles earlier calls left, and the clients: both
  raise the same exception, or both return nodes with the same ids, texts, coordinates
  and cluster assignments. The seeds are the constants \<open>42\<close> of the two constructor calls.
\<close>

theorem same_notes_same_placements:
  assumes rep: "reproducible env"
    and m: "model s1 = model s2" and k: "n_clusters s1 = n_clusters s2"
  shows "placements (fst (process_notes env s1 ns w1))
           = placements (fst (process_notes env s2 ns w2))"
proof (cases "ns = []")
  case True
  then show ?thesis by (simp add: process_notes_Nil)
next
  case False
  from k have ka: "kmeans_args s2 = kmeans_args s1" by (simp add: kmeans_args_def)
  obtain r1 v1 where e1: "encode env (model s1) ns w1 = (r1, v1)"
    by (cases "encode env (model s1) ns w1")
  obtain r2 v2 where e2: "encode env (model s1) ns w2 = (r2, v2)"
    by (cases "encode env (model s1) ns w2")
  from rep have "fst (encode env (model s1) ns w1) = fst (encode env (model s1) ns w2)"
    unfolding reproducible_def by blast
  with e1 e2 have r: "r2 = r1" by simp
  show ?thesis
  proof (cases r1)
    case (Inl e)
    with False e1 e2 r m show ?thesis by (simp add: process_notes_def)
  next
    case X: (Inr X)
    obtain p1 u1 where f1: "fit_predict env (kmeans_args s1) X v1 = (p1, u1)"
      by (cases "fit_predict env (kmeans_args s1) X v1")
    obtain p2 u2 where f2: "fit_predict env (kmeans_args s1) X v2 = (p2, u2)"
      by (cases "fit_predict env (kmeans_args s1) X v2")
    from rep have "fst (fit_predict env (kmeans_args s1) X v1)
        = fst (fit_predict env (kmeans_args s1) X v2)"
      unfolding reproducible_def by blast
    with f1 f2 have p: "p2 = p1" by simp
    show ?thesis
    proof (cases p1)
      case (Inl e)
      with False e1 e2 r m X f1 f2 p ka show ?thesis
        by (simp add: process_notes_def Let_def)
    next
      case L: (Inr cluster_labels)
      obtain c1 t1 where g1: "fit_transform env (umap_args ns) X u1 = (c1, t1)"
        by (cases "fit_transform env (umap_args ns) X u1")
      obtain c2 t2 where g2: "fit_transform env (umap_args ns) X u2 = (c2, t2)"
        by (cases "fit_transform env (umap_args ns) X u2")
      from rep have "fst (fit_transform env (umap_args ns) X u1)
          = fst (fit_transform env (umap_args ns) X u2)"
        unfolding reproducible_def by blast
      with g1 g2 have c: "c2 = c1" by simp
      show ?thesis
      proof (cases c1)
        case (Inl e)
        with False e1 e2 r m X f1 f2 p ka L g1 g2 c show ?thesis
          by (simp add: process_notes_def Let_def)
      next
        case (Inr coords_3d)
        with False e1 e2 r m X f1 f2 p ka L g1 g2 c show ?thesis
          by (simp add: process_notes_def Let_def finish_placements)
      qed
    qed
  qed
qed

theorem same_notes_same_placements_witness:
  "reproducible test_env
   \<and> placements (fst (process_notes test_env (test_renderer 3 None)
        [lit [], lit ''c'', lit ''ab''] 7))
       = placements (fst (process_notes test_env (test_renderer 3 (Some ()))
        [lit [], lit ''c'', lit ''ab''] 0))
   \<and> placements (fst (process_notes test_env (test_renderer 3 (Some ()))
        [lit [], lit ''c'', lit ''ab''] 0))
       = Inr [(0, lit [], 0, 0, 1, 0), (1, lit ''c'', 1, 0, 1, 1), (2, lit ''ab'', 2, 0, 1, 2)]
   \<and> map cluster_label (nodes test_galaxy3)
       = [lit ''Deep Space'', lit ''Deep Space'', lit ''Category 2'']"
proof -
  have rep: "reproducible test_env"
    by (simp add: reproducible_def test_env_def)
  have m: "model (test_renderer 3 None) = model (test_renderer 3 (Some ()))"
    and k: "n_clusters (test_renderer 3 None) = n_clusters (test_renderer 3 (Some ()))"
    by (simp_all add: test_renderer_def)
  have run: "fst (process_notes test_env (test_renderer 3 (Some ()))
      [lit [], lit ''c'', lit ''ab''] 0) = Inr test_galaxy3"
    by (rule test_run3)
  from same_notes_same_placements [OF rep m k, of "[lit [], lit ''c'', lit ''ab'']" 7 0]
    rep run
  show ?thesis by (simp add: placements_def placement_def test_galaxy3_def)
qed

section \<open>The endpoint \<open>add_notes\<close>\<close>

text \<open>
  Two ways in which the request fails before or at the write: a stored value that is not a
  list is never written back, and a write that fails in \<open>json.dump\<close> has already emptied
  the file.
\<close>

lemma add_notes_not_a_list:
  assumes "load_notes (store a) = Inr Not_a_list"
  shows "add_notes env a new
           = (Inl (HTTPException 500 (lit ''Error adding notes: '') AttributeError), a)"
  using assms by (simp add: add_notes_def)

lemma save_notes_failed_dump:
  assumes "data_dir_ok fs" and "writable fs" and "json_dump fs ns = Some e"
  shows "save_notes fs ns
           = (Inl (HTTPException 500 (lit ''Error saving notes: '') e),
              fs\<lparr>notes_file := Unreadable (LibraryError (lit ''JSONDecodeError''))\<rparr>)"
  using assms by (simp add: save_notes_def)



end
